theory Spec2Isabelle
  imports Main "HOL-Library.AList"
begin

section \<open>Request values\<close>

text \<open>
  The automation endpoint \<^verbatim>\<open>execute_flow\<close> of \<^verbatim>\<open>main.py\<close> receives an
  \<^verbatim>\<open>AutomationExecuteIn\<close>: three fields of type \<^verbatim>\<open>List[Dict[str, Any]]\<close>,
  \<^verbatim>\<open>List[Dict[str, Any]]\<close> and \<^verbatim>\<open>Dict[str, Any]\<close>, decoded from a JSON body.
  A decoded value is \<^verbatim>\<open>None\<close>, a \<^verbatim>\<open>bool\<close>, an \<^verbatim>\<open>int\<close>, a \<^verbatim>\<open>str\<close>, a
  \<^verbatim>\<open>list\<close> or a \<^verbatim>\<open>dict\<close> with string keys. Numbers with a fractional part are
  left out of the model, and a string is a list of code points below 256. A dictionary
  is an association list whose keys are distinct; a lookup reads the first binding.
\<close>

datatype json =
    JNull
  | JBool bool
  | JInt int
  | JStr string
  | JList "json list"
  | JDict "(string \<times> json) list"

type_synonym pydict = "(string \<times> json) list"

text \<open>\<^verbatim>\<open>d.get(k)\<close>: the value, or \<^verbatim>\<open>None\<close> when the key is missing.\<close>

definition dict_get :: "pydict \<Rightarrow> string \<Rightarrow> json" where
  "dict_get d k = (case map_of d k of None \<Rightarrow> JNull | Some v \<Rightarrow> v)"

text \<open>\<^verbatim>\<open>d.get(k, dflt)\<close>: the default stands in for a missing key only, not for a
  key bound to \<^verbatim>\<open>null\<close>.\<close>

definition dict_get_default :: "pydict \<Rightarrow> string \<Rightarrow> json \<Rightarrow> json" where
  "dict_get_default d k dflt = (case map_of d k of None \<Rightarrow> dflt | Some v \<Rightarrow> v)"

text \<open>Truth value testing (\<^verbatim>\<open>bool(v)\<close>, \<^verbatim>\<open>if v\<close>, \<^verbatim>\<open>not v\<close>, \<^verbatim>\<open>a or b\<close>).\<close>

fun truthy :: "json \<Rightarrow> bool" where
  "truthy JNull = False"
| "truthy (JBool b) = b"
| "truthy (JInt i) = (i \<noteq> 0)"
| "truthy (JStr s) = (s \<noteq> [])"
| "truthy (JList xs) = (xs \<noteq> [])"
| "truthy (JDict kvs) = (kvs \<noteq> [])"

text \<open>Lists and dictionaries cannot be hashed: using one as a dictionary key or as a
  set member raises \<^verbatim>\<open>TypeError\<close>.\<close>

fun hashable :: "json \<Rightarrow> bool" where
  "hashable (JList xs) = False"
| "hashable (JDict kvs) = False"
| "hashable v = True"

text \<open>
  \<^verbatim>\<open>True == 1\<close> and \<^verbatim>\<open>False == 0\<close> in Python, with equal hashes, so a dictionary or a
  set holds a boolean and the integer it equals under one key. \<open>py_key\<close> sends both to
  that integer; \<open>py_eq\<close> is \<^verbatim>\<open>==\<close>. Every comparison of \<^verbatim>\<open>execute_flow\<close> has a
  string, an integer, a boolean or \<^verbatim>\<open>None\<close> on one side, where \<open>py_eq\<close> is exact
  (two lists or two dictionaries are never compared there).
\<close>

fun py_key :: "json \<Rightarrow> json" where
  "py_key (JBool b) = JInt (if b then 1 else 0)"
| "py_key v = v"

definition py_eq :: "json \<Rightarrow> json \<Rightarrow> bool" where
  "py_eq a b = (py_key a = py_key b)"

subsection \<open>Exceptions\<close>

text \<open>
  The exceptions that can leave \<^verbatim>\<open>execute_flow\<close>: those its own statements raise, and
  what comes out of the evaluation of a condition past the handler around it.
\<close>

datatype error =
    TypeError
  | AttributeError
  | KeyError
  | ValueError
  | RecursionError
  | EvalEscaped
  | EvalUnmodelled

subsection \<open>Rendering values in a formatted string\<close>

text \<open>The digit of a number below ten, and below sixteen.\<close>

definition digit_char :: "nat \<Rightarrow> char" where
  "digit_char d = ''0123456789'' ! d"

fun dec_nat :: "nat \<Rightarrow> string" where
  "dec_nat n = (if n < 10 then [digit_char n] else dec_nat (n div 10) @ [digit_char (n mod 10)])"

declare dec_nat.simps [simp del]

text \<open>
  The interpreter refuses to write an integer of more than 4300 decimal digits
  (\<^verbatim>\<open>sys.int_info.default_max_str_digits\<close>; the sign does not count): the conversion
  raises \<^verbatim>\<open>ValueError\<close>.
\<close>

definition max_str_digits :: nat where
  "max_str_digits = 4300"

definition dec_int :: "int \<Rightarrow> error + string" where
  "dec_int i =
     (let ds = dec_nat (nat \<bar>i\<bar>)
      in if max_str_digits < length ds then Inl ValueError
         else Inr (if i < 0 then CHR ''-'' # ds else ds))"

definition hex_char :: "nat \<Rightarrow> char" where
  "hex_char d = ''0123456789abcdef'' ! d"

text \<open>\<^verbatim>\<open>repr\<close> of a string: single quotes, unless the text holds a single quote and
  no double quote; the quote in use and the backslash are escaped, tab, newline and
  carriage return have their letter, and a code point that is not printable is written
  \<^verbatim>\<open>\xhh\<close>.\<close>

definition printable :: "char \<Rightarrow> bool" where
  "printable c = (let n = (of_char c :: nat) in
     \<not> (n < 32 \<or> n = 127 \<or> (128 \<le> n \<and> n \<le> 160) \<or> n = 173))"

definition repr_char :: "char \<Rightarrow> char \<Rightarrow> string" where
  "repr_char q c =
     (if c = q \<or> c = CHR 0x5C then [CHR 0x5C, c]
      else if c = CHR 0x09 then [CHR 0x5C, CHR ''t'']
      else if c = CHR 0x0A then [CHR 0x5C, CHR ''n'']
      else if c = CHR 0x0D then [CHR 0x5C, CHR ''r'']
      else if printable c then [c]
      else [CHR 0x5C, CHR ''x'', hex_char (of_char c div 16), hex_char (of_char c mod 16)])"

definition repr_str :: "string \<Rightarrow> string" where
  "repr_str s =
     (let q = (if CHR 0x27 \<in> set s \<and> CHR 0x22 \<notin> set s then CHR 0x22 else CHR 0x27)
      in q # concat (map (repr_char q) s) @ [q])"

fun join :: "string \<Rightarrow> string list \<Rightarrow> string" where
  "join sep [] = []"
| "join sep [x] = x"
| "join sep (x # y # ys) = x @ sep @ join sep (y # ys)"

text \<open>The results of a loop whose body can raise: the first exception ends it.\<close>

fun collect :: "(error + 'a) list \<Rightarrow> error + 'a list" where
  "collect [] = Inr []"
| "collect (Inl e # rs) = Inl e"
| "collect (Inr x # rs) = (case collect rs of Inl e \<Rightarrow> Inl e | Inr xs \<Rightarrow> Inr (x # xs))"

text \<open>
  \<^verbatim>\<open>repr(v)\<close>. Every call of \<^verbatim>\<open>repr\<close>, that of an element of a list and of a key or
  a value of a dictionary included, passes the interpreter's recursion guard first, and
  raises \<^verbatim>\<open>RecursionError\<close> when no level is left. The first argument is the number of
  nested calls of \<^verbatim>\<open>repr\<close> that the guard still allows: it depends on the recursion
  limit of the interpreter and on the depth of the stack where the value is formatted,
  so the model of \<^verbatim>\<open>execute_flow\<close> takes it as a parameter.
\<close>

fun py_repr :: "nat \<Rightarrow> json \<Rightarrow> error + string" where
  "py_repr 0 v = Inl RecursionError"
| "py_repr (Suc d) JNull = Inr ''None''"
| "py_repr (Suc d) (JBool b) = Inr (if b then ''True'' else ''False'')"
| "py_repr (Suc d) (JInt i) = dec_int i"
| "py_repr (Suc d) (JStr s) = Inr (repr_str s)"
| "py_repr (Suc d) (JList xs) =
     (case collect (map (py_repr d) xs) of
        Inl e \<Rightarrow> Inl e
      | Inr ts \<Rightarrow> Inr (''['' @ join '', '' ts @ '']''))"
| "py_repr (Suc d) (JDict kvs) =
     (case collect (map (\<lambda>(k, v).
               case py_repr d (JStr k) of
                 Inl e \<Rightarrow> Inl e
               | Inr kt \<Rightarrow> (case py_repr d v of Inl e \<Rightarrow> Inl e | Inr vt \<Rightarrow> Inr (kt @ '': '' @ vt)))
             kvs) of
        Inl e \<Rightarrow> Inl e
      | Inr ts \<Rightarrow> Inr (''{'' @ join '', '' ts @ ''}''))"

text \<open>\<^verbatim>\<open>f"{v}"\<close>: a string goes in as it is, with no call of \<^verbatim>\<open>repr\<close>; anything else
  as its \<^verbatim>\<open>repr\<close>, at the depth the guard allows there.\<close>

fun py_str :: "nat \<Rightarrow> json \<Rightarrow> error + string" where
  "py_str depth (JStr s) = Inr s"
| "py_str depth v = py_repr depth v"


section \<open>Condition expressions\<close>

text \<open>
  A condition node hands its \<^verbatim>\<open>expr\<close> to the interpreter:
  \<^verbatim>\<open>bool(eval(cond, {}, {"ctx": ctx}))\<close> inside \<^verbatim>\<open>try ... except Exception\<close>.
  What \<^verbatim>\<open>eval\<close> does with a text is the language's business, not this repository's,
  so the model of \<^verbatim>\<open>execute_flow\<close> takes the evaluator as a parameter. An evaluation
  returns a value, whose truth value is kept, or raises an \<^verbatim>\<open>Exception\<close>, which the
  handler catches, or leaves the handler behind (\<^verbatim>\<open>SystemExit\<close>,
  \<^verbatim>\<open>KeyboardInterrupt\<close>: not subclasses of \<^verbatim>\<open>Exception\<close>). The expression sees the
  dictionary \<^verbatim>\<open>ctx\<close> itself and may change it, so the evaluator returns the dictionary
  as it is afterwards. \<open>Unmodelled\<close> is the answer of an evaluator that does not describe
  the expression (one that never returns included).
\<close>

datatype outcome = Returned bool | Raised | Escaped | Unmodelled

type_synonym evaluator = "string \<Rightarrow> pydict \<Rightarrow> outcome \<times> pydict"

subsection \<open>A fragment of the expression language\<close>

text \<open>
  \<open>py_eval\<close> describes \<^verbatim>\<open>eval\<close> on a small fragment: names, integer and string
  literals, attribute access, subscription by a name or literal, and one comparison.
  Anything else is \<open>Unmodelled\<close>.
\<close>

datatype cmpop = Eq | Ne | Lt | Le | Gt | Ge

datatype token = TName string | TInt int | TStr string | TDot | TLBrack | TRBrack | TCmp cmpop

definition is_digit :: "char \<Rightarrow> bool" where
  "is_digit c = (let n = (of_char c :: nat) in 48 \<le> n \<and> n \<le> 57)"

definition is_name_start :: "char \<Rightarrow> bool" where
  "is_name_start c = (let n = (of_char c :: nat) in
     (65 \<le> n \<and> n \<le> 90) \<or> (97 \<le> n \<and> n \<le> 122) \<or> n = 95)"

definition is_name_char :: "char \<Rightarrow> bool" where
  "is_name_char c = (is_name_start c \<or> is_digit c)"

definition int_of_digits :: "string \<Rightarrow> int" where
  "int_of_digits ds = foldl (\<lambda>a d. 10 * a + (int (of_char d) - 48)) 0 ds"

text \<open>
  The lexer gives up (\<open>None\<close>) on everything it is not sure of: a character outside
  the fragment, a string literal with a prefix, an escape or three quotes, a number that
  is not a plain decimal integer, an operator that continues into another one.
\<close>

function lex :: "string \<Rightarrow> token list option" where
  "lex [] = Some []"
| "lex (c # cs) =
     (if c = CHR '' '' then lex cs
      else if is_name_start c then
        (let rest = dropWhile is_name_char cs in
         if rest \<noteq> [] \<and> hd rest \<in> {CHR 0x27, CHR 0x22} then None
         else map_option ((#) (TName (c # takeWhile is_name_char cs))) (lex rest))
      else if is_digit c then
        (let ds = takeWhile is_digit cs; rest = dropWhile is_digit cs in
         if c = CHR ''0'' \<and> ds \<noteq> [] then None
         else if rest \<noteq> [] \<and> (is_name_char (hd rest) \<or> hd rest = CHR ''.'') then None
         else if 4300 < length (c # ds) then None
         else map_option ((#) (TInt (int_of_digits (c # ds)))) (lex rest))
      else if c = CHR 0x27 \<or> c = CHR 0x22 then
        (let body = takeWhile (\<lambda>x. x \<noteq> c) cs; rest = dropWhile (\<lambda>x. x \<noteq> c) cs in
         if rest = [] then None
         else if CHR 0x5C \<in> set body \<or> CHR 0x0A \<in> set body \<or> CHR 0x0D \<in> set body then None
         else if body = [] \<and> take 1 (tl rest) = [c] then None
         else map_option ((#) (TStr body)) (lex (tl rest)))
      else if c = CHR ''.'' then
        (if cs \<noteq> [] \<and> (is_digit (hd cs) \<or> hd cs = CHR ''.'') then None
         else map_option ((#) TDot) (lex cs))
      else if c = CHR ''['' then map_option ((#) TLBrack) (lex cs)
      else if c = CHR '']'' then map_option ((#) TRBrack) (lex cs)
      else if c = CHR ''<'' then
        (case cs of
           [] \<Rightarrow> Some [TCmp Lt]
         | d # ds \<Rightarrow>
             if d = CHR ''='' then map_option ((#) (TCmp Le)) (lex ds)
             else if d = CHR ''<'' \<or> d = CHR ''>'' then None
             else map_option ((#) (TCmp Lt)) (lex cs))
      else if c = CHR ''>'' then
        (case cs of
           [] \<Rightarrow> Some [TCmp Gt]
         | d # ds \<Rightarrow>
             if d = CHR ''='' then map_option ((#) (TCmp Ge)) (lex ds)
             else if d = CHR ''>'' then None
             else map_option ((#) (TCmp Gt)) (lex cs))
      else if c = CHR ''='' then
        (case cs of
           [] \<Rightarrow> None
         | d # ds \<Rightarrow> if d = CHR ''='' then map_option ((#) (TCmp Eq)) (lex ds) else None)
      else if c = CHR ''!'' then
        (case cs of
           [] \<Rightarrow> None
         | d # ds \<Rightarrow> if d = CHR ''='' then map_option ((#) (TCmp Ne)) (lex ds) else None)
      else None)"
  by pat_completeness auto

lemma length_tl_dropWhile_le: "length (dropWhile P xs) - Suc 0 \<le> length xs"
  using length_dropWhile_le [of P xs] by simp

termination lex
  by (relation "measure length")
     (auto simp: less_Suc_eq_le length_dropWhile_le length_tl_dropWhile_le)

declare lex.simps [simp del]

datatype expr =
    Name string
  | IntLit int
  | StrLit string
  | Attr expr string
  | Subscr expr expr
  | Compare expr cmpop expr

fun atom :: "token \<Rightarrow> expr option" where
  "atom (TName n) = Some (Name n)"
| "atom (TInt i) = Some (IntLit i)"
| "atom (TStr s) = Some (StrLit s)"
| "atom t = None"

text \<open>The trailers of a primary: \<^verbatim>\<open>.name\<close> and \<^verbatim>\<open>[atom]\<close>, as long as they come.\<close>

fun trailers :: "expr \<Rightarrow> token list \<Rightarrow> expr \<times> token list" where
  "trailers e (TDot # TName n # ts) = trailers (Attr e n) ts"
| "trailers e (TLBrack # TName n # TRBrack # ts) = trailers (Subscr e (Name n)) ts"
| "trailers e (TLBrack # TInt i # TRBrack # ts) = trailers (Subscr e (IntLit i)) ts"
| "trailers e (TLBrack # TStr s # TRBrack # ts) = trailers (Subscr e (StrLit s)) ts"
| "trailers e ts = (e, ts)"

text \<open>
  A token list is an expression of the fragment (\<open>Good\<close>), surely no expression at all
  (\<open>Bad\<close>: nothing but blanks, or a comparison operator with nothing after it, both a
  \<^verbatim>\<open>SyntaxError\<close>), or outside the fragment.
\<close>

datatype parsed = Good expr | Bad | Outside

definition primary :: "token list \<Rightarrow> (expr \<times> token list) option" where
  "primary ts = (case ts of [] \<Rightarrow> None
     | t # rest \<Rightarrow> (case atom t of None \<Rightarrow> None | Some e \<Rightarrow> Some (trailers e rest)))"

definition parse :: "token list \<Rightarrow> parsed" where
  "parse ts =
     (if ts = [] then Bad
      else case primary ts of
        None \<Rightarrow> Outside
      | Some (l, []) \<Rightarrow> Good l
      | Some (l, [TCmp op]) \<Rightarrow> Bad
      | Some (l, TCmp op # rest) \<Rightarrow>
          (case primary rest of Some (r, []) \<Rightarrow> Good (Compare l op r) | _ \<Rightarrow> Outside)
      | Some (l, _) \<Rightarrow> Outside)"

subsubsection \<open>Evaluation\<close>

datatype val = Val json | Exc | Unknown

text \<open>The attributes a \<^verbatim>\<open>dict\<close> has: its methods, and the names that start with an
  underscore, which the model leaves alone. Any other attribute raises
  \<^verbatim>\<open>AttributeError\<close> (\<^verbatim>\<open>SyntaxError\<close> when the name is a keyword).\<close>

definition dict_attrs :: "string list" where
  "dict_attrs = [''clear'', ''copy'', ''fromkeys'', ''get'', ''items'', ''keys'', ''pop'',
     ''popitem'', ''setdefault'', ''update'', ''values'']"

definition get_attr :: "json \<Rightarrow> string \<Rightarrow> val" where
  "get_attr v n =
     (case v of
        JDict d \<Rightarrow> if n \<in> set dict_attrs \<or> take 1 n = ''_'' then Unknown else Exc
      | _ \<Rightarrow> Unknown)"

definition seq_index :: "json \<Rightarrow> int option" where
  "seq_index k = (case k of JInt i \<Rightarrow> Some i | JBool b \<Rightarrow> Some (if b then 1 else 0) | _ \<Rightarrow> None)"

text \<open>Indexing a sequence: a negative index counts from the end, one out of range raises
  \<^verbatim>\<open>IndexError\<close>, an index that is no integer raises \<^verbatim>\<open>TypeError\<close>.\<close>

definition seq_item :: "'a list \<Rightarrow> json \<Rightarrow> 'a option" where
  "seq_item xs k =
     (case seq_index k of
        None \<Rightarrow> None
      | Some i \<Rightarrow>
          if 0 \<le> i \<and> i < int (length xs) then Some (xs ! nat i)
          else if i < 0 \<and> - int (length xs) \<le> i then Some (xs ! nat (int (length xs) + i))
          else None)"

definition subscript :: "json \<Rightarrow> json \<Rightarrow> val" where
  "subscript v k =
     (case v of
        JDict d \<Rightarrow>
          (case k of
             JStr s \<Rightarrow> (case map_of d s of None \<Rightarrow> Exc | Some x \<Rightarrow> Val x)
           | _ \<Rightarrow> Exc)
      | JList xs \<Rightarrow> (case seq_item xs k of None \<Rightarrow> Exc | Some x \<Rightarrow> Val x)
      | JStr s \<Rightarrow> (case seq_item s k of None \<Rightarrow> Exc | Some c \<Rightarrow> Val (JStr [c]))
      | _ \<Rightarrow> Exc)"

definition number :: "json \<Rightarrow> int option" where
  "number v = (case v of JInt i \<Rightarrow> Some i | JBool b \<Rightarrow> Some (if b then 1 else 0) | _ \<Rightarrow> None)"

fun order :: "cmpop \<Rightarrow> int \<Rightarrow> int \<Rightarrow> bool" where
  "order Lt a b = (a < b)"
| "order Le a b = (a \<le> b)"
| "order Gt a b = (a > b)"
| "order Ge a b = (a \<ge> b)"
| "order Eq a b = (a = b)"
| "order Ne a b = (a \<noteq> b)"

text \<open>
  \<^verbatim>\<open>==\<close> and \<^verbatim>\<open>!=\<close> never raise on these values; with a list or a dictionary on both
  sides the model does not answer. An ordering compares two numbers; two strings or two
  lists are comparable in Python but left out here; every other pair of types raises
  \<^verbatim>\<open>TypeError\<close>.
\<close>

definition compare :: "cmpop \<Rightarrow> json \<Rightarrow> json \<Rightarrow> val" where
  "compare op a b =
     (if op = Eq \<or> op = Ne then
        (if hashable a \<or> hashable b then Val (JBool ((op = Eq) = py_eq a b)) else Unknown)
      else case (number a, number b) of
        (Some x, Some y) \<Rightarrow> Val (JBool (order op x y))
      | _ \<Rightarrow>
          (case (a, b) of
             (JStr s, JStr t) \<Rightarrow> Unknown
           | (JList xs, JList ys) \<Rightarrow> Unknown
           | _ \<Rightarrow> Exc))"

fun eval_expr :: "pydict \<Rightarrow> expr \<Rightarrow> val" where
  "eval_expr c (Name n) =
     (if n = ''ctx'' then Val (JDict c)
      else if n = ''True'' then Val (JBool True)
      else if n = ''False'' then Val (JBool False)
      else if n = ''None'' then Val JNull
      else Unknown)"
| "eval_expr c (IntLit i) = Val (JInt i)"
| "eval_expr c (StrLit s) = Val (JStr s)"
| "eval_expr c (Attr e n) = (case eval_expr c e of Val v \<Rightarrow> get_attr v n | r \<Rightarrow> r)"
| "eval_expr c (Subscr e i) =
     (case eval_expr c e of
        Val v \<Rightarrow> (case eval_expr c i of Val k \<Rightarrow> subscript v k | r \<Rightarrow> r)
      | r \<Rightarrow> r)"
| "eval_expr c (Compare l op r) =
     (case eval_expr c l of
        Val a \<Rightarrow> (case eval_expr c r of Val b \<Rightarrow> compare op a b | x \<Rightarrow> x)
      | x \<Rightarrow> x)"

text \<open>
  A source text with a null character in it is refused before it is parsed
  (\<^verbatim>\<open>ValueError\<close>, in later versions \<^verbatim>\<open>SyntaxError\<close>). A long expression can
  meet a limit of the interpreter, which raises: the recursion guard of the parser or the
  compiler on a long chain of subscripts, the limit of 4300 digits on an integer literal.
  Where the first of these happens depends on the interpreter, so the fragment ends at
  source texts of \<open>max_source\<close> characters, far below them. No expression of the
  fragment changes \<^verbatim>\<open>ctx\<close>.
\<close>

definition max_source :: nat where
  "max_source = 128"

definition py_eval :: evaluator where
  "py_eval s c =
     (if CHR 0x00 \<in> set s then (Raised, c)
      else if max_source < length s then (Unmodelled, c)
      else case lex s of
        None \<Rightarrow> (Unmodelled, c)
      | Some ts \<Rightarrow>
          (case parse ts of
             Outside \<Rightarrow> (Unmodelled, c)
           | Bad \<Rightarrow> (Raised, c)
           | Good e \<Rightarrow>
               (case eval_expr c e of
                  Val v \<Rightarrow> (Returned (truthy v), c)
                | Exc \<Rightarrow> (Raised, c)
                | Unknown \<Rightarrow> (Unmodelled, c))))"


section \<open>The automation engine\<close>

text \<open>
  \<^verbatim>\<open>execute_flow\<close> either returns \<^verbatim>\<open>{"ok": True, "logs": logs, "context": ctx}\<close> or an
  exception leaves it (and the caller gets no logs). The function has no error of its
  own and raises none: what leaves it is raised by the dictionary comprehension, by
  \<^verbatim>\<open>cfg.get\<close>, by a formatted string, by the edge subscript, by the membership test,
  or comes out of \<^verbatim>\<open>eval\<close> past the handler. The model ends at the \<^verbatim>\<open>return\<close>
  statement; encoding the response is the framework's.
\<close>

record run =
  logs :: "string list"
  ctx :: pydict

text \<open>
  \<^verbatim>\<open>log(msg)\<close> reads the clock and appends \<^verbatim>\<open>f"[{ts}] {msg}"\<close>. The clock is a
  parameter: \<open>clock k\<close> is the text of \<^verbatim>\<open>now_utc().isoformat()\<close> at the call of
  \<^verbatim>\<open>log\<close> that follows \<open>k\<close> earlier ones, which is the length of \<^verbatim>\<open>logs\<close> then.
\<close>

definition log :: "(nat \<Rightarrow> string) \<Rightarrow> run \<Rightarrow> string \<Rightarrow> run" where
  "log clock st msg = st\<lparr>logs := logs st @ [''['' @ clock (length (logs st)) @ ''] '' @ msg]\<rparr>"

text \<open>
  \<^verbatim>\<open>log(f"<before>{v}<after>")\<close>: the argument is formatted first, in the frame of
  \<^verbatim>\<open>execute_flow\<close>, and \<^verbatim>\<open>log\<close> is not called when that raises.
\<close>

definition say ::
  "(nat \<Rightarrow> string) \<Rightarrow> nat \<Rightarrow> run \<Rightarrow> string \<Rightarrow> json \<Rightarrow> string \<Rightarrow> error + run" where
  "say clock depth st before v after =
     (case py_str depth v of
        Inl e \<Rightarrow> Inl e
      | Inr t \<Rightarrow> Inr (log clock st (before @ t @ after)))"

text \<open>
  \<^verbatim>\<open>node_map = {n.get("id"): n for n in payload.nodes}\<close>: a later node replaces an
  earlier one under an equal key, and a key that cannot be hashed raises.
\<close>

fun build_node_map :: "(json \<times> pydict) list \<Rightarrow> pydict list \<Rightarrow> error + (json \<times> pydict) list" where
  "build_node_map m [] = Inr m"
| "build_node_map m (n # ns) =
     (let k = dict_get n ''id''
      in if hashable k then build_node_map (AList.update (py_key k) n m) ns
         else Inl TypeError)"

definition node_map :: "pydict list \<Rightarrow> error + (json \<times> pydict) list" where
  "node_map nodes = build_node_map [] nodes"

text \<open>\<^verbatim>\<open>[n for n in payload.nodes if n.get("type") == "trigger"] or payload.nodes[:1]\<close>\<close>

definition start_nodes :: "pydict list \<Rightarrow> pydict list" where
  "start_nodes nodes =
     (let triggers = filter (\<lambda>n. py_eq (dict_get n ''type'') (JStr ''trigger'')) nodes
      in if triggers \<noteq> [] then triggers else take 1 nodes)"

text \<open>
  \<^verbatim>\<open>next_edges = [e for e in payload.edges if e.get("from") == current_id]\<close>, then
  \<^verbatim>\<open>next_edges[0]["to"] if next_edges else None\<close>: the subscript raises
  \<^verbatim>\<open>KeyError\<close> when that edge has no \<^verbatim>\<open>to\<close>.
\<close>

definition next_id :: "pydict list \<Rightarrow> json \<Rightarrow> error + json" where
  "next_id edges current_id =
     (let next_edges = filter (\<lambda>e. py_eq (dict_get e ''from'') current_id) edges
      in case next_edges of
           [] \<Rightarrow> Inr JNull
         | e # _ \<Rightarrow> (case map_of e ''to'' of None \<Rightarrow> Inl KeyError | Some v \<Rightarrow> Inr v))"

text \<open>\<^verbatim>\<open>cfg.get(k, dflt)\<close> on \<^verbatim>\<open>cfg = node.get("config", {})\<close>, which is any value
  of the request: only a dictionary has \<^verbatim>\<open>get\<close>.\<close>

definition cfg_get :: "json \<Rightarrow> string \<Rightarrow> json \<Rightarrow> error + json" where
  "cfg_get cfg k dflt =
     (case cfg of JDict d \<Rightarrow> Inr (dict_get_default d k dflt) | _ \<Rightarrow> Inl AttributeError)"

text \<open>\<^verbatim>\<open>eval\<close> of anything but a string raises \<^verbatim>\<open>TypeError\<close>, inside the
  \<^verbatim>\<open>try\<close>.\<close>

definition eval_cond :: "evaluator \<Rightarrow> json \<Rightarrow> pydict \<Rightarrow> outcome \<times> pydict" where
  "eval_cond ev cond c = (case cond of JStr s \<Rightarrow> ev s c | _ \<Rightarrow> (Raised, c))"

text \<open>The text of \<^verbatim>\<open>f"Condition '{cond}' -> {ok}"\<close> around the expression.\<close>

definition cond_before :: string where
  "cond_before = ''Condition '' @ [CHR 0x27]"

definition cond_after :: "bool \<Rightarrow> string" where
  "cond_after ok = [CHR 0x27] @ '' -> '' @ (if ok then ''True'' else ''False'')"

text \<open>
  The \<^verbatim>\<open>if\<close>/\<^verbatim>\<open>elif\<close> chain of the loop body, from \<^verbatim>\<open>ntype = node.get("type")\<close>
  on: it raises, leaves the loop (\<^verbatim>\<open>break\<close>), or falls through to the selection of
  the next edge. A node whose type is none of the three falls through unchanged.
\<close>

datatype acted = Raises error | Breaks run | Continues run

definition after_say :: "error + run \<Rightarrow> acted" where
  "after_say r = (case r of Inl e \<Rightarrow> Raises e | Inr st \<Rightarrow> Continues st)"

definition act_on :: "evaluator \<Rightarrow> (nat \<Rightarrow> string) \<Rightarrow> nat \<Rightarrow> pydict \<Rightarrow> run \<Rightarrow> acted" where
  "act_on ev clock depth node st =
     (let ntype = dict_get node ''type'';
          cfg = dict_get_default node ''config'' (JDict [])
      in if py_eq ntype (JStr ''trigger'') then
           (case cfg_get cfg ''name'' (JStr ''start'') of
              Inl e \<Rightarrow> Raises e
            | Inr nm \<Rightarrow> after_say (say clock depth st ''Trigger: '' nm []))
         else if py_eq ntype (JStr ''condition'') then
           (case cfg_get cfg ''expr'' (JStr ''True'') of
              Inl e \<Rightarrow> Raises e
            | Inr cond \<Rightarrow>
                (case eval_cond ev cond (ctx st) of
                   (Escaped, c) \<Rightarrow> Raises EvalEscaped
                 | (Unmodelled, c) \<Rightarrow> Raises EvalUnmodelled
                 | (Raised, c) \<Rightarrow>
                     (case say clock depth (st\<lparr>ctx := c\<rparr>) cond_before cond (cond_after False) of
                        Inl e \<Rightarrow> Raises e
                      | Inr st' \<Rightarrow> Breaks st')
                 | (Returned ok, c) \<Rightarrow>
                     (case say clock depth (st\<lparr>ctx := c\<rparr>) cond_before cond (cond_after ok) of
                        Inl e \<Rightarrow> Raises e
                      | Inr st' \<Rightarrow> if \<not> ok then Breaks st' else Continues st')))
         else if py_eq ntype (JStr ''action'') then
           (case cfg_get cfg ''name'' (JStr ''noop'') of
              Inl e \<Rightarrow> Raises e
            | Inr act \<Rightarrow>
                if py_eq act (JStr ''send_message'') then
                  (case cfg_get cfg ''text'' (JStr []) of
                     Inl e \<Rightarrow> Raises e
                   | Inr txt \<Rightarrow> after_say (say clock depth st ''Action: send_message -> '' txt []))
                else if py_eq act (JStr ''delay'') then
                  (case cfg_get cfg ''ms'' (JInt 0) of
                     Inl e \<Rightarrow> Raises e
                   | Inr ms \<Rightarrow> after_say (say clock depth st ''Action: delay '' ms ''ms (simulated)''))
                else after_say (say clock depth st ''Action: '' act []))
         else Continues st)"

text \<open>One pass through the loop body: the chain, then the selection of the next edge
  (\<^verbatim>\<open># move to next via first matching edge\<close>). The traversal fails, stops, or goes
  on with the next \<^verbatim>\<open>current_id\<close>.\<close>

datatype step = Fail error | Stop run | Next run json

definition follow :: "pydict list \<Rightarrow> json \<Rightarrow> run \<Rightarrow> step" where
  "follow edges current_id st =
     (case next_id edges current_id of Inl e \<Rightarrow> Fail e | Inr nxt \<Rightarrow> Next st nxt)"

definition visit ::
  "evaluator \<Rightarrow> (nat \<Rightarrow> string) \<Rightarrow> nat \<Rightarrow> pydict list \<Rightarrow> pydict \<Rightarrow> json \<Rightarrow> run \<Rightarrow> step" where
  "visit ev clock depth edges node current_id st =
     (case act_on ev clock depth node st of
        Raises e \<Rightarrow> Fail e
      | Breaks st' \<Rightarrow> Stop st'
      | Continues st' \<Rightarrow> follow edges current_id st')"

text \<open>
  The loop \<^verbatim>\<open>while current_id and current_id not in visited\<close>. The membership test
  hashes \<^verbatim>\<open>current_id\<close>, after its truth value was taken. \<^verbatim>\<open>if not node: break\<close>
  leaves the loop for a missing node and for an empty dictionary.
\<close>

function walk ::
  "evaluator \<Rightarrow> (nat \<Rightarrow> string) \<Rightarrow> nat \<Rightarrow> (json \<times> pydict) list \<Rightarrow> pydict list \<Rightarrow> json set \<Rightarrow> json
    \<Rightarrow> run \<Rightarrow> error + run" where
  "walk ev clock depth nm edges visited current_id st =
     (if \<not> truthy current_id then Inr st
      else if \<not> hashable current_id then Inl TypeError
      else if py_key current_id \<in> visited then Inr st
      else case map_of nm (py_key current_id) of
             None \<Rightarrow> Inr st
           | Some node \<Rightarrow>
               if node = [] then Inr st
               else (case visit ev clock depth edges node current_id st of
                       Fail e \<Rightarrow> Inl e
                     | Stop st' \<Rightarrow> Inr st'
                     | Next st' nxt \<Rightarrow>
                         walk ev clock depth nm edges (insert (py_key current_id) visited) nxt
                           st'))"
  by pat_completeness auto

lemma card_unvisited_less:
  assumes "map_of nm k = Some node" and "k \<notin> visited"
  shows "card (fst ` set nm - insert k visited) < card (fst ` set nm - visited)"
proof -
  have mem: "k \<in> fst ` set nm - visited"
    using assms by (force dest: map_of_SomeD)
  have fin: "finite (fst ` set nm - visited)"
    by simp
  have "fst ` set nm - insert k visited = (fst ` set nm - visited) - {k}"
    by auto
  then show ?thesis
    using card_Diff1_less [OF fin mem] by simp
qed

termination walk
  by (relation "measure (\<lambda>(ev, clock, depth, nm, edges, visited, current_id, st).
        card (fst ` set nm - visited))")
     (auto intro: card_unvisited_less)

declare walk.simps [simp del]

text \<open>\<^verbatim>\<open>for start in start_nodes\<close>: each traversal has a fresh \<^verbatim>\<open>visited\<close> and goes
  on from the logs and the context the one before left.\<close>

fun run_starts ::
  "evaluator \<Rightarrow> (nat \<Rightarrow> string) \<Rightarrow> nat \<Rightarrow> (json \<times> pydict) list \<Rightarrow> pydict list \<Rightarrow> pydict list
    \<Rightarrow> run \<Rightarrow> error + run" where
  "run_starts ev clock depth nm edges [] st = Inr st"
| "run_starts ev clock depth nm edges (start # rest) st =
     (case walk ev clock depth nm edges {} (dict_get start ''id'') st of
        Inl e \<Rightarrow> Inl e
      | Inr st' \<Rightarrow> run_starts ev clock depth nm edges rest st')"

text \<open>
  The whole function. Besides the request it depends on the interpreter it runs in: the
  evaluator of expressions, the clock, and the depth the recursion guard allows to a
  formatted value.
\<close>

definition execute_flow ::
  "evaluator \<Rightarrow> (nat \<Rightarrow> string) \<Rightarrow> nat \<Rightarrow> pydict list \<Rightarrow> pydict list \<Rightarrow> pydict \<Rightarrow> error + run" where
  "execute_flow ev clock depth nodes edges payload =
     (case node_map nodes of
        Inl e \<Rightarrow> Inl e
      | Inr nm \<Rightarrow>
          run_starts ev clock depth nm edges (start_nodes nodes) \<lparr>logs = [], ctx = payload\<rparr>)"

subsection \<open>Counting the passes of the loop\<close>



subsection \<open>The loop at a node\<close>

text \<open>
  \<open>at_node\<close> says that the loop enters its body and finds a node: the current id is
  true, can be hashed, was not visited in this traversal, and the index holds a node
  under it that is no empty dictionary.
\<close>

definition at_node :: "(json \<times> pydict) list \<Rightarrow> json set \<Rightarrow> json \<Rightarrow> pydict \<Rightarrow> bool" where
  "at_node nm visited current_id node =
     (truthy current_id \<and> hashable current_id \<and> py_key current_id \<notin> visited
      \<and> map_of nm (py_key current_id) = Some node \<and> node \<noteq> [])"

text \<open>
  A traversal is a sequence of passes through the loop body. \<open>passes\<close> relates the
  variables of the loop (\<^verbatim>\<open>visited\<close>, \<^verbatim>\<open>current_id\<close>, and the logs and context) at
  the head of the loop to their values at the head of the loop some completed passes
  later.
\<close>

inductive passes ::
  "evaluator \<Rightarrow> (nat \<Rightarrow> string) \<Rightarrow> nat \<Rightarrow> (json \<times> pydict) list \<Rightarrow> pydict list
    \<Rightarrow> json set \<times> json \<times> run \<Rightarrow> json set \<times> json \<times> run \<Rightarrow> bool"
  for ev clock depth nm edges where
    here: "passes ev clock depth nm edges x x"
  | pass: "at_node nm visited current_id node
      \<Longrightarrow> visit ev clock depth edges node current_id st = Next st' nxt
      \<Longrightarrow> passes ev clock depth nm edges (insert (py_key current_id) visited, nxt, st') y
      \<Longrightarrow> passes ev clock depth nm edges (visited, current_id, st) y"

subsection \<open>Requests the engine gets through\<close>









subsection \<open>Example requests\<close>

text \<open>A clock for the examples: the \<open>k\<close>-th reading is \<open>k\<close> seconds into a day. And a
  depth: what a recursion limit of 1000 leaves a hundred frames into the stack.\<close>

definition example_clock :: "nat \<Rightarrow> string" where
  "example_clock k = ''2024-01-01T00:00:0'' @ [digit_char (k mod 10)] @ ''+00:00''"

definition example_depth :: nat where
  "example_depth = 900"

text \<open>
  The graph of the specification's Scenario A, with the condition's expression left open:
  a trigger \<^verbatim>\<open>t1\<close>, a condition \<^verbatim>\<open>c1\<close>, an action \<^verbatim>\<open>a1\<close>, and the edges
  \<^verbatim>\<open>t1 -> c1 -> a1\<close>. The specification calls \<^verbatim>\<open>kind\<close> the field that the source
  reads as \<^verbatim>\<open>type\<close>.
\<close>

definition scenario_nodes :: "string \<Rightarrow> pydict list" where
  "scenario_nodes expr =
     [[(''id'', JStr ''t1''), (''type'', JStr ''trigger''),
       (''config'', JDict [(''name'', JStr ''start'')])],
      [(''id'', JStr ''c1''), (''type'', JStr ''condition''),
       (''config'', JDict [(''expr'', JStr expr)])],
      [(''id'', JStr ''a1''), (''type'', JStr ''action''),
       (''config'', JDict [(''name'', JStr ''send_message''), (''text'', JStr ''Welcome'')])]]"

definition scenario_edges :: "pydict list" where
  "scenario_edges =
     [[(''from'', JStr ''t1''), (''to'', JStr ''c1'')],
      [(''from'', JStr ''c1''), (''to'', JStr ''a1'')]]"



text \<open>Whether a text occurs in another, for reading the logs of an example.\<close>

fun starts_with :: "string \<Rightarrow> string \<Rightarrow> bool" where
  "starts_with [] s = True"
| "starts_with (p # ps) [] = False"
| "starts_with (p # ps) (c # cs) = (p = c \<and> starts_with ps cs)"

fun occurs_in :: "string \<Rightarrow> string \<Rightarrow> bool" where
  "occurs_in p [] = (p = [])"
| "occurs_in p (c # cs) = (starts_with p (c # cs) \<or> occurs_in p cs)"

text \<open>A single condition node that compares a number with a string.\<close>

definition mismatch_nodes :: "pydict list" where
  "mismatch_nodes =
     [[(''id'', JStr ''c1''), (''type'', JStr ''condition''),
       (''config'', JDict [(''expr'', JStr ''ctx['age'] < ctx['name']'')])]]"

definition mismatch_payload :: pydict where
  "mismatch_payload = [(''age'', JInt 21), (''name'', JStr ''Ann'')]"

text \<open>Two trigger nodes under one id, and a trigger node whose id is the empty string.\<close>

definition twin_nodes :: "pydict list" where
  "twin_nodes =
     [[(''id'', JStr ''t1''), (''type'', JStr ''trigger''),
       (''config'', JDict [(''name'', JStr ''a'')])],
      [(''id'', JStr ''t1''), (''type'', JStr ''trigger''),
       (''config'', JDict [(''name'', JStr ''b'')])]]"

definition blank_nodes :: "pydict list" where
  "blank_nodes = [[(''id'', JStr []), (''type'', JStr ''trigger'')]]"





text \<open>The nodes of Scenario A with the field named \<^verbatim>\<open>kind\<close>, as the specification
  writes a request.\<close>

definition kind_nodes :: "pydict list" where
  "kind_nodes =
     [[(''id'', JStr ''t1''), (''kind'', JStr ''trigger''),
       (''config'', JDict [(''name'', JStr ''start'')])],
      [(''id'', JStr ''c1''), (''kind'', JStr ''condition''),
       (''config'', JDict [(''expr'', JStr ''ctx.age >= 18'')])],
      [(''id'', JStr ''a1''), (''kind'', JStr ''action''),
       (''config'', JDict [(''name'', JStr ''send_message''), (''text'', JStr ''Welcome'')])]]"

text \<open>
  A trigger \<^verbatim>\<open>t1\<close> with two edges that leave it, to the action \<^verbatim>\<open>a1\<close> first and to
  the action \<^verbatim>\<open>a2\<close> second, after an edge that leaves another node.
\<close>

definition fork_nodes :: "pydict list" where
  "fork_nodes =
     [[(''id'', JStr ''t1''), (''type'', JStr ''trigger'')],
      [(''id'', JStr ''a1''), (''type'', JStr ''action''),
       (''config'', JDict [(''name'', JStr ''first'')])],
      [(''id'', JStr ''a2''), (''type'', JStr ''action''),
       (''config'', JDict [(''name'', JStr ''second'')])]]"

definition fork_edges :: "pydict list" where
  "fork_edges =
     [[(''from'', JStr ''a2''), (''to'', JStr ''t1'')],
      [(''from'', JStr ''t1''), (''to'', JStr ''a1'')],
      [(''from'', JStr ''t1''), (''to'', JStr ''a2'')]]"

text \<open>
  An action followed by two triggers, with no edges; and two actions with no trigger.
\<close>

definition late_trigger_nodes :: "pydict list" where
  "late_trigger_nodes =
     [[(''id'', JStr ''a0''), (''type'', JStr ''action'')],
      [(''id'', JStr ''t1''), (''type'', JStr ''trigger''),
       (''config'', JDict [(''name'', JStr ''one'')])],
      [(''id'', JStr ''t2''), (''type'', JStr ''trigger''),
       (''config'', JDict [(''name'', JStr ''two'')])]]"

definition action_nodes :: "pydict list" where
  "action_nodes =
     [[(''id'', JStr ''a1''), (''type'', JStr ''action''),
       (''config'', JDict [(''name'', JStr ''first'')])],
      [(''id'', JStr ''a2''), (''type'', JStr ''action''),
       (''config'', JDict [(''name'', JStr ''second'')])]]"

text \<open>
  Values that cannot be written: a list inside a list, \<open>k\<close> times over, and with it a
  trigger of that name; and a delay whose \<^verbatim>\<open>ms\<close> is a given number.
\<close>

fun nested :: "nat \<Rightarrow> json" where
  "nested 0 = JList []"
| "nested (Suc k) = JList [nested k]"

definition nested_name_nodes :: "nat \<Rightarrow> pydict list" where
  "nested_name_nodes k =
     [[(''id'', JStr ''t1''), (''type'', JStr ''trigger''),
       (''config'', JDict [(''name'', nested k)])]]"

definition delay_nodes :: "int \<Rightarrow> pydict list" where
  "delay_nodes ms =
     [[(''id'', JStr ''a1''), (''type'', JStr ''action''),
       (''config'', JDict [(''name'', JStr ''delay''), (''ms'', JInt ms)])]]"

section \<open>Properties\<close>

subsection \<open>Auxiliary facts\<close>

lemma py_eq_JStr [simp]: "py_eq v (JStr s) \<longleftrightarrow> v = JStr s"
  by (cases v) (auto simp: py_eq_def)

lemma dict_get_JStr: "dict_get d k = JStr s \<longleftrightarrow> map_of d k = Some (JStr s)"
  by (auto simp: dict_get_def split: option.splits)

lemmas model_defs = execute_flow_def node_map_def start_nodes_def visit_def act_on_def
  after_say_def say_def follow_def next_id_def cfg_get_def eval_cond_def cond_before_def
  cond_after_def log_def dict_get_def dict_get_default_def Let_def

lemmas fragment_defs = py_eval_def max_source_def lex.simps is_name_start_def is_name_char_def
  is_digit_def int_of_digits_def parse_def primary_def get_attr_def dict_attrs_def
  subscript_def compare_def number_def

subsection \<open>Values that cannot be written\<close>

text \<open>
  A number of at least \<open>10 ^ k\<close> has more than \<open>k\<close> digits, so the line of a delay whose
  \<^verbatim>\<open>ms\<close> has more than 4300 of them raises \<^verbatim>\<open>ValueError\<close>; and a list nested as deep
  as the recursion guard allows, or deeper, raises \<^verbatim>\<open>RecursionError\<close> from the line of
  the trigger it names. Both leave \<^verbatim>\<open>execute_flow\<close>.
\<close>

lemma dec_nat_digits: "10 ^ k \<le> n \<Longrightarrow> k < length (dec_nat n)"
proof (induction k arbitrary: n)
  case 0
  show ?case by (subst dec_nat.simps) simp
next
  case (Suc k)
  from Suc.prems have p: "10 * 10 ^ k \<le> n" by simp
  have "(10::nat) \<le> 10 * 10 ^ k" by simp
  with p have big: "10 \<le> n" by linarith
  from p have "10 ^ k \<le> n div 10"
    by (simp add: less_eq_div_iff_mult_less_eq mult.commute)
  from Suc.IH [OF this] big show ?case
    by (subst dec_nat.simps) simp
qed

lemma long_number_unwritable:
  assumes "10 ^ max_str_digits \<le> \<bar>i\<bar>"
  shows "py_str (Suc d) (JInt i) = Inl ValueError"
proof -
  from assms have "(10::nat) ^ max_str_digits \<le> nat \<bar>i\<bar>"
    by (simp add: le_nat_iff)
  from dec_nat_digits [OF this] show ?thesis
    by (simp add: dec_int_def Let_def)
qed

lemma deep_value_unwritable: "d \<le> k \<Longrightarrow> py_repr d (nested k) = Inl RecursionError"
proof (induction d arbitrary: k)
  case 0
  show ?case by simp
next
  case (Suc d)
  then obtain j where k: "k = Suc j" and "d \<le> j"
    by (cases k) simp_all
  from Suc.IH [OF this(2)] show ?case
    by (simp add: k)
qed

lemma long_number_raises:
  assumes "10 ^ max_str_digits \<le> \<bar>ms\<bar>"
  shows "execute_flow ev clock (Suc d) (delay_nodes ms) edges payload = Inl ValueError"
  using long_number_unwritable [OF assms, of d]
  by (simp add: delay_nodes_def model_defs walk.simps del: py_str.simps)

lemma deep_value_raises:
  assumes "depth \<le> k"
  shows "execute_flow ev clock depth (nested_name_nodes k) edges payload = Inl RecursionError"
proof -
  have "py_str depth (nested k) = Inl RecursionError"
    using deep_value_unwritable [OF assms] by (cases k) simp_all
  then show ?thesis
    by (simp add: nested_name_nodes_def model_defs walk.simps)
qed

text \<open>A delay of 500 writes its number, at any depth that allows one call.\<close>

lemma delay_line:
  "execute_flow ev clock (Suc d) (delay_nodes 500) [] payload
     = Inr \<lparr>logs = [''['' @ clock 0 @ ''] Action: delay 500ms (simulated)''], ctx = payload\<rparr>"
  by (simp add: delay_nodes_def model_defs walk.simps dec_int_def dec_nat.simps digit_char_def
      max_str_digits_def)

subsection \<open>An empty graph\<close>

text \<open>
  Claim C7. For every payload, a request with no nodes returns no logs and the payload
  itself as the final context, whatever its edges are.
\<close>

theorem empty_graph:
  "execute_flow ev clock depth [] edges payload = Inr \<lparr>logs = [], ctx = payload\<rparr>"
  by (simp add: execute_flow_def node_map_def start_nodes_def)

subsection \<open>One pass of the loop\<close>

lemma walk_at_node:
  assumes "at_node nm visited cur node"
  shows "walk ev clock depth nm edges visited cur st =
           (case visit ev clock depth edges node cur st of
              Fail e \<Rightarrow> Inl e
            | Stop st' \<Rightarrow> Inr st'
            | Next st' nxt \<Rightarrow>
                walk ev clock depth nm edges (insert (py_key cur) visited) nxt st')"
  using assms by (subst walk.simps) (simp add: at_node_def)

lemma act_on_condition:
  assumes "dict_get node ''type'' = JStr ''condition''"
    and "dict_get_default node ''config'' (JDict []) = JDict d"
  shows "act_on ev clock depth node st =
           (let cond = dict_get_default d ''expr'' (JStr ''True'')
            in case eval_cond ev cond (ctx st) of
                 (Escaped, c) \<Rightarrow> Raises EvalEscaped
               | (Unmodelled, c) \<Rightarrow> Raises EvalUnmodelled
               | (Raised, c) \<Rightarrow>
                   (case say clock depth (st\<lparr>ctx := c\<rparr>) cond_before cond (cond_after False) of
                      Inl e \<Rightarrow> Raises e
                    | Inr st' \<Rightarrow> Breaks st')
               | (Returned ok, c) \<Rightarrow>
                   (case say clock depth (st\<lparr>ctx := c\<rparr>) cond_before cond (cond_after ok) of
                      Inl e \<Rightarrow> Raises e
                    | Inr st' \<Rightarrow> if \<not> ok then Breaks st' else Continues st'))"
  using assms by (simp add: act_on_def cfg_get_def Let_def)

lemma first_edge:
  assumes "\<forall>x \<in> set pre. \<not> py_eq (dict_get x ''from'') cur"
    and "py_eq (dict_get e ''from'') cur"
  shows "next_id (pre @ e # post) cur
           = (case map_of e ''to'' of None \<Rightarrow> Inl KeyError | Some v \<Rightarrow> Inr v)"
proof -
  have "filter (\<lambda>x. py_eq (dict_get x ''from'') cur) pre = []"
    using assms(1) by (simp add: filter_empty_conv)
  then show ?thesis
    using assms(2) by (simp add: next_id_def)
qed

lemma walk_passes:
  assumes "passes ev clock depth nm edges x y"
  shows "walk ev clock depth nm edges (fst x) (fst (snd x)) (snd (snd x))
           = walk ev clock depth nm edges (fst y) (fst (snd y)) (snd (snd y))"
  using assms
proof (induction rule: passes.induct)
  case (here x)
  show ?case by simp
next
  case (pass visited current_id node st st' nxt y)
  then show ?case
    by (simp add: walk_at_node)
qed

lemma walk_stops_at_condition:
  assumes "at_node nm visited cur node"
    and "dict_get node ''type'' = JStr ''condition''"
    and "dict_get_default node ''config'' (JDict []) = JDict d"
    and "eval_cond ev (dict_get_default d ''expr'' (JStr ''True'')) (ctx st) = (r, c)"
    and "r = Returned False \<or> r = Raised"
  shows "walk ev clock depth nm edges visited cur st
           = say clock depth (st\<lparr>ctx := c\<rparr>) cond_before
               (dict_get_default d ''expr'' (JStr ''True'')) (cond_after False)"
  using assms(4,5) walk_at_node [OF assms(1)] act_on_condition [OF assms(2,3)]
  by (auto simp: visit_def Let_def split: sum.splits)

lemma log_record:
  "log clock (st\<lparr>ctx := c\<rparr>) msg
     = \<lparr>logs = logs st @ [''['' @ clock (length (logs st)) @ ''] '' @ msg], ctx = c\<rparr>"
  by (cases st) (simp add: log_def)

lemma scenario_index:
  "node_map (scenario_nodes e) =
     Inr [(JStr ''t1'', scenario_nodes e ! 0), (JStr ''c1'', scenario_nodes e ! 1),
          (JStr ''a1'', scenario_nodes e ! 2)]"
  by (simp add: node_map_def scenario_nodes_def dict_get_def Let_def)

subsection \<open>The edge that is followed\<close>

text \<open>
  Claim C8. Take a pass of the loop at a node that does not end the traversal (a trigger,
  an action, a condition that holds, a node of another type), and the first edge of the
  request whose \<^verbatim>\<open>from\<close> equals the current node id. Then the pass goes on with the
  \<^verbatim>\<open>to\<close> of that edge as the one next id, and the traversal is the traversal from
  there: the edges after it, matching or not, play no part, so there is no fan-out. (When
  that edge has no \<^verbatim>\<open>to\<close>, the subscript raises.)
\<close>

theorem first_matching_edge:
  assumes "at_node nm visited cur node"
    and "act_on ev clock depth node st = Continues st'"
    and "\<forall>x \<in> set pre. \<not> py_eq (dict_get x ''from'') cur"
    and "py_eq (dict_get e ''from'') cur"
  shows "next_id (pre @ e # post) cur
           = (case map_of e ''to'' of None \<Rightarrow> Inl KeyError | Some v \<Rightarrow> Inr v)
         \<and> visit ev clock depth (pre @ e # post) node cur st
           = (case map_of e ''to'' of None \<Rightarrow> Fail KeyError | Some v \<Rightarrow> Next st' v)
         \<and> walk ev clock depth nm (pre @ e # post) visited cur st
           = (case map_of e ''to'' of
                None \<Rightarrow> Inl KeyError
              | Some v \<Rightarrow>
                  walk ev clock depth nm (pre @ e # post) (insert (py_key cur) visited) v st')"
proof -
  note n = first_edge [OF assms(3,4), of post]
  have v: "visit ev clock depth (pre @ e # post) node cur st
      = (case map_of e ''to'' of None \<Rightarrow> Fail KeyError | Some v \<Rightarrow> Next st' v)"
    using assms(2) n by (simp add: visit_def follow_def split: option.splits)
  have "walk ev clock depth nm (pre @ e # post) visited cur st
      = (case map_of e ''to'' of
           None \<Rightarrow> Inl KeyError
         | Some v \<Rightarrow>
             walk ev clock depth nm (pre @ e # post) (insert (py_key cur) visited) v st')"
    using walk_at_node [OF assms(1)] v by (simp split: option.splits)
  with n v show ?thesis by simp
qed

text \<open>
  The trigger \<^verbatim>\<open>t1\<close> has the edges to \<^verbatim>\<open>a1\<close> and to \<^verbatim>\<open>a2\<close>, in this order, after an
  edge of another node: the traversal runs \<^verbatim>\<open>a1\<close>, and \<^verbatim>\<open>a2\<close> leaves no line.
\<close>

theorem first_matching_edge_witness:
  "walk py_eval example_clock example_depth
     [(JStr ''t1'', fork_nodes ! 0), (JStr ''a1'', fork_nodes ! 1), (JStr ''a2'', fork_nodes ! 2)]
     fork_edges {} (JStr ''t1'') \<lparr>logs = [], ctx = []\<rparr>
   = Inr \<lparr>logs = [''[2024-01-01T00:00:00+00:00] Trigger: start'',
                  ''[2024-01-01T00:00:01+00:00] Action: first''], ctx = []\<rparr>"
proof -
  let ?nm = "[(JStr ''t1'', fork_nodes ! 0), (JStr ''a1'', fork_nodes ! 1),
      (JStr ''a2'', fork_nodes ! 2)]"
  let ?st1 = "\<lparr>logs = [''[2024-01-01T00:00:00+00:00] Trigger: start''], ctx = []\<rparr>"
  have n: "at_node ?nm {} (JStr ''t1'') (fork_nodes ! 0)"
    by (simp add: at_node_def fork_nodes_def)
  have a: "act_on py_eval example_clock example_depth (fork_nodes ! 0) \<lparr>logs = [], ctx = []\<rparr>
      = Continues ?st1"
    by (simp add: fork_nodes_def model_defs example_clock_def digit_char_def)
  have p: "\<forall>x \<in> set [[(''from'', JStr ''a2''), (''to'', JStr ''t1'')]].
      \<not> py_eq (dict_get x ''from'') (JStr ''t1'')"
    by (simp add: dict_get_def)
  have e: "py_eq (dict_get [(''from'', JStr ''t1''), (''to'', JStr ''a1'')] ''from'') (JStr ''t1'')"
    by (simp add: dict_get_def)
  have rest: "walk py_eval example_clock example_depth ?nm fork_edges {JStr ''t1''} (JStr ''a1'') ?st1
      = Inr \<lparr>logs = [''[2024-01-01T00:00:00+00:00] Trigger: start'',
                     ''[2024-01-01T00:00:01+00:00] Action: first''], ctx = []\<rparr>"
    by (simp add: fork_nodes_def fork_edges_def walk.simps model_defs example_clock_def
        digit_char_def)
  from first_matching_edge [OF n a p e, of "[[(''from'', JStr ''t1''), (''to'', JStr ''a2'')]]"]
    rest
  show ?thesis
    by (simp add: fork_edges_def)
qed

subsection \<open>A node of no known type\<close>

text \<open>
  Claim C10. When the loop is at a node whose \<^verbatim>\<open>type\<close> is none of \<^verbatim>\<open>trigger\<close>,
  \<^verbatim>\<open>condition\<close> and \<^verbatim>\<open>action\<close>, the pass records nothing and does not stop: the
  traversal goes on, with the same logs and context, at the \<^verbatim>\<open>to\<close> of the first edge
  that leaves the node (when that edge has no \<^verbatim>\<open>to\<close> the subscript raises, and when
  no edge leaves it the next id is \<^verbatim>\<open>None\<close>).
\<close>

theorem unknown_type_is_noop:
  assumes "at_node nm visited cur node"
    and "dict_get node ''type'' \<notin> {JStr ''trigger'', JStr ''condition'', JStr ''action''}"
  shows "walk ev clock depth nm edges visited cur st =
           (case next_id edges cur of
              Inl e \<Rightarrow> Inl e
            | Inr nxt \<Rightarrow> walk ev clock depth nm edges (insert (py_key cur) visited) nxt st)"
proof -
  have "act_on ev clock depth node st = Continues st"
    using assms(2) by (simp add: act_on_def Let_def)
  then have "visit ev clock depth edges node cur st = follow edges cur st"
    by (simp add: visit_def)
  then show ?thesis
    using walk_at_node [OF assms(1)] by (simp add: follow_def split: sum.splits)
qed

theorem unknown_type_is_noop_witness:
  "walk py_eval example_clock example_depth
     [(JStr ''n1'', [(''id'', JStr ''n1''), (''type'', JStr ''note'')]),
      (JStr ''a1'', [(''id'', JStr ''a1''), (''type'', JStr ''action'')])]
     [[(''from'', JStr ''n1''), (''to'', JStr ''a1'')]] {} (JStr ''n1'') \<lparr>logs = [], ctx = []\<rparr>
   = Inr \<lparr>logs = [''[2024-01-01T00:00:00+00:00] Action: noop''], ctx = []\<rparr>"
proof -
  have "at_node [(JStr ''n1'', [(''id'', JStr ''n1''), (''type'', JStr ''note'')]),
      (JStr ''a1'', [(''id'', JStr ''a1''), (''type'', JStr ''action'')])] {} (JStr ''n1'')
      [(''id'', JStr ''n1''), (''type'', JStr ''note'')]"
    by (simp add: at_node_def)
  from unknown_type_is_noop [OF this, of py_eval example_clock example_depth
      "[[(''from'', JStr ''n1''), (''to'', JStr ''a1'')]]" "\<lparr>logs = [], ctx = []\<rparr>"]
  show ?thesis
    by (simp add: walk.simps model_defs example_clock_def digit_char_def)
qed

subsection \<open>A condition that is false\<close>

text \<open>
  Claim C6. Take a traversal from a start node that, after some passes, is at a
  condition node whose expression is false there (the evaluation returns a false value,
  or raises and is caught). Then the traversal ends with that pass: its result is the
  state it had reached plus the one line of the condition, whatever the edges after the
  condition are, and the loop over the start nodes goes on with the next start node from
  that state. (An expression that cannot be written raises from the line instead.)
\<close>

theorem false_condition_ends_traversal:
  assumes "passes ev clock depth nm edges ({}, dict_get start ''id'', st0) (visited, cur, st)"
    and "at_node nm visited cur node"
    and "dict_get node ''type'' = JStr ''condition''"
    and "dict_get_default node ''config'' (JDict []) = JDict d"
    and "eval_cond ev (dict_get_default d ''expr'' (JStr ''True'')) (ctx st) = (r, c)"
    and "r = Returned False \<or> r = Raised"
  shows "walk ev clock depth nm edges {} (dict_get start ''id'') st0
           = (case py_str depth (dict_get_default d ''expr'' (JStr ''True'')) of
                Inl e \<Rightarrow> Inl e
              | Inr t \<Rightarrow> Inr (log clock (st\<lparr>ctx := c\<rparr>) (cond_before @ t @ cond_after False)))
         \<and> run_starts ev clock depth nm edges (start # rest) st0
           = (case py_str depth (dict_get_default d ''expr'' (JStr ''True'')) of
                Inl e \<Rightarrow> Inl e
              | Inr t \<Rightarrow>
                  run_starts ev clock depth nm edges rest
                    (log clock (st\<lparr>ctx := c\<rparr>) (cond_before @ t @ cond_after False)))"
  using walk_passes [OF assms(1)] walk_stops_at_condition [OF assms(2-6)]
  by (simp add: say_def split: sum.splits)

theorem false_condition_ends_traversal_witness:
  "walk py_eval example_clock example_depth
     [(JStr ''t1'', scenario_nodes ''ctx['age'] >= 18'' ! 0),
      (JStr ''c1'', scenario_nodes ''ctx['age'] >= 18'' ! 1),
      (JStr ''a1'', scenario_nodes ''ctx['age'] >= 18'' ! 2)]
     scenario_edges {} (JStr ''t1'') \<lparr>logs = [], ctx = [(''age'', JInt 10)]\<rparr>
   = Inr \<lparr>logs = [''[2024-01-01T00:00:00+00:00] Trigger: start'',
                  ''[2024-01-01T00:00:01+00:00] Condition 'ctx['age'] >= 18' -> False''],
          ctx = [(''age'', JInt 10)]\<rparr>"
proof -
  let ?e = "''ctx['age'] >= 18''"
  let ?nm = "[(JStr ''t1'', scenario_nodes ?e ! 0), (JStr ''c1'', scenario_nodes ?e ! 1),
      (JStr ''a1'', scenario_nodes ?e ! 2)]"
  let ?st0 = "\<lparr>logs = [], ctx = [(''age'', JInt 10)]\<rparr>"
  let ?st1 = "\<lparr>logs = [''[2024-01-01T00:00:00+00:00] Trigger: start''],
      ctx = [(''age'', JInt 10)]\<rparr>"
  have n0: "at_node ?nm {} (JStr ''t1'') (scenario_nodes ?e ! 0)"
    by (simp add: at_node_def scenario_nodes_def)
  have v0: "visit py_eval example_clock example_depth scenario_edges (scenario_nodes ?e ! 0)
      (JStr ''t1'') ?st0 = Next ?st1 (JStr ''c1'')"
    by (simp add: scenario_nodes_def scenario_edges_def model_defs example_clock_def
        digit_char_def)
  have p: "passes py_eval example_clock example_depth ?nm scenario_edges
      ({}, dict_get (scenario_nodes ?e ! 0) ''id'', ?st0) ({JStr ''t1''}, JStr ''c1'', ?st1)"
    using passes.pass [OF n0 v0, of "({JStr ''t1''}, JStr ''c1'', ?st1)"] passes.here
    by (simp add: scenario_nodes_def dict_get_def)
  have n1: "at_node ?nm {JStr ''t1''} (JStr ''c1'') (scenario_nodes ?e ! 1)"
    by (simp add: at_node_def scenario_nodes_def)
  have t1: "dict_get (scenario_nodes ?e ! 1) ''type'' = JStr ''condition''"
    by (simp add: scenario_nodes_def dict_get_def)
  have c1: "dict_get_default (scenario_nodes ?e ! 1) ''config'' (JDict [])
      = JDict [(''expr'', JStr ?e)]"
    by (simp add: scenario_nodes_def dict_get_default_def)
  have e1: "eval_cond py_eval (dict_get_default [(''expr'', JStr ?e)] ''expr'' (JStr ''True''))
      (ctx ?st1) = (Returned False, [(''age'', JInt 10)])"
    by (simp add: eval_cond_def dict_get_default_def fragment_defs)
  from false_condition_ends_traversal [OF p n1 t1 c1 e1, of "[]"]
  show ?thesis
    by (simp add: scenario_nodes_def dict_get_def dict_get_default_def log_def cond_before_def
        cond_after_def example_clock_def digit_char_def)
qed

subsection \<open>An expression that fails to evaluate\<close>

text \<open>
  Claim C4, as the source has it. When the evaluation of a condition's expression raises
  (a syntax error, a type mismatch, a missing key, an expression that is no string),
  the handler sets the result to false and the pass records the ordinary line of a
  condition, \<^verbatim>\<open>Condition '<expr>' -> False\<close>: there is no event of its own for the
  failure and no reason in the logs. The traversal ends there with that line as its last,
  and the engine goes on with the next start node. (An expression that is no string and
  cannot be written either raises from the line, and that exception is not caught.)
\<close>

theorem failed_condition_logged_as_false:
  assumes "passes ev clock depth nm edges ({}, dict_get start ''id'', st0) (visited, cur, st)"
    and "at_node nm visited cur node"
    and "dict_get node ''type'' = JStr ''condition''"
    and "dict_get_default node ''config'' (JDict []) = JDict d"
    and "dict_get_default d ''expr'' (JStr ''True'') = cond"
    and "eval_cond ev cond (ctx st) = (Raised, c)"
  shows "walk ev clock depth nm edges {} (dict_get start ''id'') st0
           = (case py_str depth cond of
                Inl e \<Rightarrow> Inl e
              | Inr t \<Rightarrow>
                  Inr \<lparr>logs = logs st @
                         [''['' @ clock (length (logs st)) @ ''] Condition '' @ [CHR 0x27]
                           @ t @ [CHR 0x27] @ '' -> False''],
                       ctx = c\<rparr>)
         \<and> run_starts ev clock depth nm edges (start # rest) st0
           = (case py_str depth cond of
                Inl e \<Rightarrow> Inl e
              | Inr t \<Rightarrow>
                  run_starts ev clock depth nm edges rest
                    \<lparr>logs = logs st @
                         [''['' @ clock (length (logs st)) @ ''] Condition '' @ [CHR 0x27]
                           @ t @ [CHR 0x27] @ '' -> False''],
                     ctx = c\<rparr>)"
proof -
  have "walk ev clock depth nm edges visited cur st
      = say clock depth (st\<lparr>ctx := c\<rparr>) cond_before cond (cond_after False)"
    using walk_stops_at_condition [OF assms(2-4), of ev st Raised c] assms(5,6) by simp
  then show ?thesis
    using walk_passes [OF assms(1)]
    by (simp add: say_def log_record cond_before_def cond_after_def split: sum.splits)
qed

theorem failed_condition_logged_as_false_witness:
  "walk py_eval example_clock example_depth [(JStr ''c1'', mismatch_nodes ! 0)] [] {}
     (JStr ''c1'') \<lparr>logs = [], ctx = mismatch_payload\<rparr>
   = Inr \<lparr>logs = [''[2024-01-01T00:00:00+00:00] Condition 'ctx['age'] < ctx['name']' -> False''],
          ctx = mismatch_payload\<rparr>"
proof -
  let ?nm = "[(JStr ''c1'', mismatch_nodes ! 0)]"
  let ?st0 = "\<lparr>logs = [], ctx = mismatch_payload\<rparr>"
  have p: "passes py_eval example_clock example_depth ?nm []
      ({}, dict_get (mismatch_nodes ! 0) ''id'', ?st0) ({}, JStr ''c1'', ?st0)"
    using passes.here [of py_eval example_clock example_depth ?nm "[]" "({}, JStr ''c1'', ?st0)"]
    by (simp add: mismatch_nodes_def dict_get_def)
  have n: "at_node ?nm {} (JStr ''c1'') (mismatch_nodes ! 0)"
    by (simp add: at_node_def mismatch_nodes_def)
  have t: "dict_get (mismatch_nodes ! 0) ''type'' = JStr ''condition''"
    by (simp add: mismatch_nodes_def dict_get_def)
  have c: "dict_get_default (mismatch_nodes ! 0) ''config'' (JDict [])
      = JDict [(''expr'', JStr ''ctx['age'] < ctx['name']'')]"
    by (simp add: mismatch_nodes_def dict_get_default_def)
  have d: "dict_get_default [(''expr'', JStr ''ctx['age'] < ctx['name']'')] ''expr'' (JStr ''True'')
      = JStr ''ctx['age'] < ctx['name']''"
    by (simp add: dict_get_default_def)
  have e: "eval_cond py_eval (JStr ''ctx['age'] < ctx['name']'') (ctx ?st0)
      = (Raised, mismatch_payload)"
    by (simp add: eval_cond_def mismatch_payload_def fragment_defs)
  from failed_condition_logged_as_false [OF p n t c d e, of "[]"]
  show ?thesis
    by (simp add: mismatch_nodes_def dict_get_def example_clock_def digit_char_def)
qed

text \<open>
  The claim as the specification states it asks for an event
  \<^verbatim>\<open>Condition '<expr>' failed to evaluate: <reason>\<close>. On a condition that compares a
  number with a string (a \<^verbatim>\<open>TypeError\<close>) the call returns one line, and the words
  \<^verbatim>\<open>failed to evaluate\<close> do not occur in it.
\<close>

theorem no_failed_to_evaluate_event:
  "execute_flow py_eval example_clock example_depth mismatch_nodes [] mismatch_payload
     = Inr \<lparr>logs = [''[2024-01-01T00:00:00+00:00] Condition 'ctx['age'] < ctx['name']' -> False''],
            ctx = mismatch_payload\<rparr>
   \<and> \<not> occurs_in ''failed to evaluate''
         ''[2024-01-01T00:00:00+00:00] Condition 'ctx['age'] < ctx['name']' -> False''"
  by (simp add: mismatch_nodes_def mismatch_payload_def model_defs walk.simps fragment_defs
      example_clock_def digit_char_def)

subsection \<open>Cycles\<close>







subsection \<open>Node ids that repeat\<close>

lemma find_append_case:
  "List.find P (xs @ ys) = (case List.find P xs of None \<Rightarrow> List.find P ys | Some x \<Rightarrow> Some x)"
  by (induction xs) auto

lemma build_node_map_lookup:
  assumes "\<forall>n \<in> set ns. hashable (dict_get n ''id'')"
  shows "\<exists>nm. build_node_map m ns = Inr nm
           \<and> (\<forall>k. map_of nm k =
                 (case List.find (\<lambda>n. py_key (dict_get n ''id'') = k) (rev ns) of
                    None \<Rightarrow> map_of m k
                  | Some n \<Rightarrow> Some n))"
  using assms
proof (induction ns arbitrary: m)
  case Nil
  then show ?case by simp
next
  case (Cons n ns)
  let ?k = "py_key (dict_get n ''id'')"
  from Cons.prems have rest: "\<forall>n \<in> set ns. hashable (dict_get n ''id'')"
    and h: "hashable (dict_get n ''id'')"
    by simp_all
  from Cons.IH [OF rest, of "AList.update ?k n m"] obtain nm
    where b: "build_node_map (AList.update ?k n m) ns = Inr nm"
      and l: "\<forall>k. map_of nm k =
                 (case List.find (\<lambda>n. py_key (dict_get n ''id'') = k) (rev ns) of
                    None \<Rightarrow> map_of (AList.update ?k n m) k
                  | Some n \<Rightarrow> Some n)"
    by blast
  have "build_node_map m (n # ns) = Inr nm"
    using h b by (simp add: Let_def)
  moreover have "map_of nm k =
      (case List.find (\<lambda>n. py_key (dict_get n ''id'') = k) (rev (n # ns)) of
         None \<Rightarrow> map_of m k | Some n \<Rightarrow> Some n)" for k
    using l by (simp add: find_append_case update_conv' split: option.splits)
  ultimately show ?case by blast
qed

text \<open>
  Claim C2, as the source has it. Building the index checks nothing: there is no
  \<^verbatim>\<open>MalformedGraphError\<close>, and for all node ids that can be hashed (strings, numbers,
  booleans, \<^verbatim>\<open>None\<close>), repeated and empty ones included, the index is built and the
  execution goes on with it. Under each id the index holds the node that comes last in
  the request among those with an equal id. A traversal that starts at an empty id makes
  no pass and changes nothing.
\<close>

theorem index_keeps_last_node:
  assumes "\<forall>n \<in> set nodes. hashable (dict_get n ''id'')"
  shows "\<exists>nm. node_map nodes = Inr nm
           \<and> (\<forall>k. map_of nm k = List.find (\<lambda>n. py_key (dict_get n ''id'') = k) (rev nodes))
           \<and> (\<forall>visited st. walk ev clock depth nm edges visited (JStr []) st = Inr st)"
proof -
  from build_node_map_lookup [OF assms, of "[]"] obtain nm
    where b: "build_node_map [] nodes = Inr nm"
      and l: "\<forall>k. map_of nm k =
                 (case List.find (\<lambda>n. py_key (dict_get n ''id'') = k) (rev nodes) of
                    None \<Rightarrow> map_of [] k
                  | Some n \<Rightarrow> Some n)"
    by blast
  have "map_of nm k = List.find (\<lambda>n. py_key (dict_get n ''id'') = k) (rev nodes)" for k
    using l by (cases "List.find (\<lambda>n. py_key (dict_get n ''id'') = k) (rev nodes)") simp_all
  moreover have "walk ev clock depth nm edges visited (JStr []) st = Inr st" for visited st
    by (subst walk.simps) simp
  ultimately show ?thesis
    using b by (simp add: node_map_def)
qed

theorem index_keeps_last_node_witness:
  "\<exists>nm. node_map twin_nodes = Inr nm \<and> map_of nm (JStr ''t1'') = Some (twin_nodes ! 1)"
proof -
  have h: "\<forall>n \<in> set twin_nodes. hashable (dict_get n ''id'')"
    by (simp add: twin_nodes_def dict_get_def)
  from index_keeps_last_node [OF h] obtain nm
    where 1: "node_map twin_nodes = Inr nm"
      and 2: "\<forall>k. map_of nm k = List.find (\<lambda>n. py_key (dict_get n ''id'') = k) (rev twin_nodes)"
    by blast
  from 2 have "map_of nm (JStr ''t1'') = Some (twin_nodes ! 1)"
    by (simp add: twin_nodes_def dict_get_def)
  with 1 show ?thesis by blast
qed

text \<open>
  Two triggers under the id \<^verbatim>\<open>t1\<close>: the call returns, with the second node run twice.
  A trigger whose id is empty: the call returns, with no logs.
\<close>

theorem duplicate_id_accepted:
  "execute_flow py_eval example_clock example_depth twin_nodes [] []
     = Inr \<lparr>logs = [''[2024-01-01T00:00:00+00:00] Trigger: b'',
                    ''[2024-01-01T00:00:01+00:00] Trigger: b''], ctx = []\<rparr>
   \<and> execute_flow py_eval example_clock example_depth blank_nodes [] []
     = Inr \<lparr>logs = [], ctx = []\<rparr>"
  by (simp add: twin_nodes_def blank_nodes_def model_defs walk.simps example_clock_def
      digit_char_def)

subsection \<open>Requests that return\<close>
















subsection \<open>Start nodes\<close>

lemma failed_stays_failed:
  "foldl (\<lambda>r start. case r of Inl e \<Rightarrow> Inl e | Inr st \<Rightarrow> f start st) (Inl e) starts = Inl e"
  by (induction starts) simp_all

lemma run_starts_foldl:
  "run_starts ev clock depth nm edges starts st
     = foldl (\<lambda>r start. case r of
                 Inl e \<Rightarrow> Inl e
               | Inr st \<Rightarrow> walk ev clock depth nm edges {} (dict_get start ''id'') st)
         (Inr st) starts"
proof (induction starts arbitrary: st)
  case Nil
  show ?case by simp
next
  case (Cons start rest)
  show ?case
  proof (cases "walk ev clock depth nm edges {} (dict_get start ''id'') st")
    case (Inl e)
    then show ?thesis
      by (simp add: failed_stays_failed)
  next
    case (Inr st')
    with Cons.IH [of st'] show ?thesis
      by simp
  qed
qed

lemma start_nodes_eq:
  "start_nodes nodes =
     (let triggers = filter (\<lambda>n. map_of n ''type'' = Some (JStr ''trigger'')) nodes
      in if triggers = [] then (case nodes of [] \<Rightarrow> [] | n # ns \<Rightarrow> [n]) else triggers)"
  by (cases nodes) (simp_all add: start_nodes_def dict_get_JStr Let_def)

text \<open>
  Claim C9. The start nodes are the nodes whose \<^verbatim>\<open>type\<close> is \<^verbatim>\<open>trigger\<close>, in the order
  of the request; when there is none, the first node of the request alone; and none at
  all for an empty node list. The call runs one traversal from the id of each of them, in
  that order, each from the logs and context the one before left, and stops at the first
  that raises; it runs no other traversal. So an action followed by two triggers gives the
  lines of the two triggers in their order and none of the action, two actions without a
  trigger give the line of the first action only, and no nodes give no line.
\<close>

theorem start_node_selection:
  "start_nodes nodes =
     (let triggers = filter (\<lambda>n. map_of n ''type'' = Some (JStr ''trigger'')) nodes
      in if triggers = [] then (case nodes of [] \<Rightarrow> [] | n # ns \<Rightarrow> [n]) else triggers)
   \<and> execute_flow ev clock depth nodes edges payload =
       (case node_map nodes of
          Inl e \<Rightarrow> Inl e
        | Inr nm \<Rightarrow>
            foldl (\<lambda>r start. case r of
                      Inl e \<Rightarrow> Inl e
                    | Inr st \<Rightarrow> walk ev clock depth nm edges {} (dict_get start ''id'') st)
              (Inr \<lparr>logs = [], ctx = payload\<rparr>)
              (let triggers = filter (\<lambda>n. map_of n ''type'' = Some (JStr ''trigger'')) nodes
               in if triggers = [] then (case nodes of [] \<Rightarrow> [] | n # ns \<Rightarrow> [n])
                  else triggers))
   \<and> execute_flow ev clock depth late_trigger_nodes [] payload
       = Inr \<lparr>logs = [''['' @ clock 0 @ ''] Trigger: one'', ''['' @ clock 1 @ ''] Trigger: two''],
              ctx = payload\<rparr>
   \<and> execute_flow ev clock depth action_nodes [] payload
       = Inr \<lparr>logs = [''['' @ clock 0 @ ''] Action: first''], ctx = payload\<rparr>
   \<and> execute_flow ev clock depth [] edges payload = Inr \<lparr>logs = [], ctx = payload\<rparr>"
proof -
  have "execute_flow ev clock depth nodes edges payload =
       (case node_map nodes of
          Inl e \<Rightarrow> Inl e
        | Inr nm \<Rightarrow>
            foldl (\<lambda>r start. case r of
                      Inl e \<Rightarrow> Inl e
                    | Inr st \<Rightarrow> walk ev clock depth nm edges {} (dict_get start ''id'') st)
              (Inr \<lparr>logs = [], ctx = payload\<rparr>)
              (let triggers = filter (\<lambda>n. map_of n ''type'' = Some (JStr ''trigger'')) nodes
               in if triggers = [] then (case nodes of [] \<Rightarrow> [] | n # ns \<Rightarrow> [n])
                  else triggers))"
    unfolding execute_flow_def run_starts_foldl start_nodes_eq [symmetric] ..
  moreover have "execute_flow ev clock depth late_trigger_nodes [] payload
       = Inr \<lparr>logs = [''['' @ clock 0 @ ''] Trigger: one'', ''['' @ clock 1 @ ''] Trigger: two''],
              ctx = payload\<rparr>"
    by (simp add: late_trigger_nodes_def model_defs walk.simps)
  moreover have "execute_flow ev clock depth action_nodes [] payload
       = Inr \<lparr>logs = [''['' @ clock 0 @ ''] Action: first''], ctx = payload\<rparr>"
    by (simp add: action_nodes_def model_defs walk.simps)
  moreover have "execute_flow ev clock depth [] edges payload = Inr \<lparr>logs = [], ctx = payload\<rparr>"
    by (simp add: execute_flow_def node_map_def start_nodes_def)
  ultimately show ?thesis
    using start_nodes_eq [of nodes] by simp
qed

subsection \<open>Scenario A\<close>

text \<open>
  Claim C1, as the source has it. The condition is handed to Python's \<^verbatim>\<open>eval\<close> with
  \<^verbatim>\<open>ctx\<close> bound to the payload dictionary, so the age is read by
  \<^verbatim>\<open>ctx['age']\<close>, and a boolean is printed \<^verbatim>\<open>True\<close> or \<^verbatim>\<open>False\<close>. On the graph of
  Scenario A with the expression \<^verbatim>\<open>ctx['age'] >= 18\<close>, the payload \<^verbatim>\<open>{"age": 21}\<close>
  gives the trigger line, the condition line with \<^verbatim>\<open>True\<close> and the action line, and the
  payload \<^verbatim>\<open>{"age": 10}\<close> gives the trigger line and the condition line with
  \<^verbatim>\<open>False\<close>, and no action line. Each line starts with its timestamp in brackets. With
  the expression as the specification writes it, \<^verbatim>\<open>ctx.age >= 18\<close>, the evaluation
  raises for every payload (a dictionary has no attribute \<^verbatim>\<open>age\<close>), so the condition
  line shows \<^verbatim>\<open>False\<close> and there is no action line.
\<close>

theorem scenario_a:
  "execute_flow py_eval clock depth (scenario_nodes ''ctx['age'] >= 18'') scenario_edges
       [(''age'', JInt 21)]
     = Inr \<lparr>logs = [''['' @ clock 0 @ ''] Trigger: start'',
                    ''['' @ clock 1 @ ''] Condition 'ctx['age'] >= 18' -> True'',
                    ''['' @ clock 2 @ ''] Action: send_message -> Welcome''],
            ctx = [(''age'', JInt 21)]\<rparr>
   \<and> execute_flow py_eval clock depth (scenario_nodes ''ctx['age'] >= 18'') scenario_edges
       [(''age'', JInt 10)]
     = Inr \<lparr>logs = [''['' @ clock 0 @ ''] Trigger: start'',
                    ''['' @ clock 1 @ ''] Condition 'ctx['age'] >= 18' -> False''],
            ctx = [(''age'', JInt 10)]\<rparr>
   \<and> execute_flow py_eval clock depth (scenario_nodes ''ctx.age >= 18'') scenario_edges payload
     = Inr \<lparr>logs = [''['' @ clock 0 @ ''] Trigger: start'',
                    ''['' @ clock 1 @ ''] Condition 'ctx.age >= 18' -> False''],
            ctx = payload\<rparr>"
proof -
  have lt: "py_eval ''ctx['age'] >= 18'' [(''age'', JInt 21)] = (Returned True, [(''age'', JInt 21)])"
    by (simp add: fragment_defs)
  have lf: "py_eval ''ctx['age'] >= 18'' [(''age'', JInt 10)] = (Returned False, [(''age'', JInt 10)])"
    by (simp add: fragment_defs)
  have at: "py_eval ''ctx.age >= 18'' c = (Raised, c)" for c
    by (simp add: fragment_defs)
  show ?thesis
    by (simp add: scenario_nodes_def scenario_edges_def model_defs walk.simps lt lf at
        numeral_2_eq_2)
qed

text \<open>
  The claim as the specification states it expects, for the payload \<^verbatim>\<open>{"age": 21}\<close>, a
  condition line with \<^verbatim>\<open>true\<close> and the action line. The call returns two lines: the
  condition's shows \<^verbatim>\<open>False\<close>, and the action's is not there.
\<close>

theorem scenario_a_as_specified:
  "execute_flow py_eval example_clock example_depth (scenario_nodes ''ctx.age >= 18'')
       scenario_edges [(''age'', JInt 21)]
     = Inr \<lparr>logs = [''[2024-01-01T00:00:00+00:00] Trigger: start'',
                    ''[2024-01-01T00:00:01+00:00] Condition 'ctx.age >= 18' -> False''],
            ctx = [(''age'', JInt 21)]\<rparr>"
  by (simp add: scenario_nodes_def scenario_edges_def model_defs walk.simps fragment_defs
      example_clock_def digit_char_def)

text \<open>
  The source reads the field \<^verbatim>\<open>type\<close> only. A request that names it \<^verbatim>\<open>kind\<close> has
  no trigger, condition or action for the engine: the traversal starts at the first node
  and passes through all three without a line.
\<close>

lemma scenario_a_kind_field:
  "execute_flow py_eval clock depth kind_nodes scenario_edges [(''age'', JInt 21)]
     = Inr \<lparr>logs = [], ctx = [(''age'', JInt 21)]\<rparr>"
  by (simp add: kind_nodes_def scenario_edges_def model_defs walk.simps)

end
